theory Spec2Isabelle
  imports Main
begin

section \<open>ssh\_connect.py: credentials from a settings file, one SSH session\<close>

text \<open>
  A shallow embedding of \<^verbatim>\<open>src/ssh-connect/ssh_connect.py\<close>. The class \<^verbatim>\<open>SSHClient\<close>
  becomes a record, its methods become functions that take and return the object together
  with the part of the outside world they touch, and every exception is a value of
  \<open>py_error\<close> on the left of a sum.

  Python text is modelled as \<open>string\<close> over ASCII characters: \<open>isspace\<close>, \<open>lower\<close> and
  \<open>py_int\<close> below are Python's \<^verbatim>\<open>str.isspace\<close>, \<^verbatim>\<open>str.lower\<close> and \<^verbatim>\<open>int\<close> on ASCII text.
  The libraries the script calls are modelled by what they do for it: \<^verbatim>\<open>load_dotenv\<close> by
  its effect on \<^verbatim>\<open>os.environ\<close> given the bindings of the file, \<^verbatim>\<open>os.path.expanduser\<close> as
  on a POSIX system, and the SSH library by the answers of the network.
\<close>

subsection \<open>Python built-ins used by the script\<close>

datatype py_error =
    ValueError string
  | AuthenticationException
  | SSHException string
  | SocketError string
  | EOFError
  | NotActive

definition isspace :: "char \<Rightarrow> bool" where
  "isspace c \<longleftrightarrow> c \<in> set [CHR 0x09, CHR 0x0A, CHR 0x0B, CHR 0x0C, CHR 0x0D,
                           CHR 0x1C, CHR 0x1D, CHR 0x1E, CHR 0x1F, CHR 0x20]"

definition lstrip :: "string \<Rightarrow> string" where
  "lstrip s = dropWhile isspace s"

definition rstrip :: "string \<Rightarrow> string" where
  "rstrip s = rev (dropWhile isspace (rev s))"

definition strip :: "string \<Rightarrow> string" where
  \<comment> \<open>\<^verbatim>\<open>str.strip()\<close> with no argument: whitespace goes from both ends.\<close>
  "strip s = rstrip (lstrip s)"

definition lower_char :: "char \<Rightarrow> char" where
  "lower_char c =
     (case map_of (zip ''ABCDEFGHIJKLMNOPQRSTUVWXYZ'' ''abcdefghijklmnopqrstuvwxyz'') c of
        Some d \<Rightarrow> d
      | None \<Rightarrow> c)"

definition lower :: "string \<Rightarrow> string" where
  "lower s = map lower_char s"

definition truthy :: "string option \<Rightarrow> bool" where
  \<comment> \<open>Truth value of an \<^verbatim>\<open>Optional[str]\<close>: \<^verbatim>\<open>None\<close> and \<^verbatim>\<open>""\<close> are false.\<close>
  "truthy x = (case x of None \<Rightarrow> False | Some s \<Rightarrow> s \<noteq> [])"

definition py_or :: "string option \<Rightarrow> string option \<Rightarrow> string option" where
  \<comment> \<open>\<^verbatim>\<open>x or y\<close>: \<^verbatim>\<open>x\<close> when it is true, else \<^verbatim>\<open>y\<close> whatever it is.\<close>
  "py_or x y = (if truthy x then x else y)"

definition is_digit :: "char \<Rightarrow> bool" where
  "is_digit c \<longleftrightarrow> c \<in> set ''0123456789''"

definition digit_val :: "char \<Rightarrow> int" where
  "digit_val c = int (of_char c) - 48"

fun int_digits :: "int \<Rightarrow> string \<Rightarrow> int option" where
  \<comment> \<open>Decimal digits; a single underscore may stand between two digits.\<close>
  "int_digits acc [] = Some acc"
| "int_digits acc [c] = (if is_digit c then Some (acc * 10 + digit_val c) else None)"
| "int_digits acc (c # d # cs) =
     (if is_digit c then int_digits (acc * 10 + digit_val c) (d # cs)
      else if c = CHR ''_'' \<and> is_digit d then int_digits acc (d # cs)
      else None)"

definition int_unsigned :: "string \<Rightarrow> int option" where
  "int_unsigned s =
     (case s of [] \<Rightarrow> None | c # _ \<Rightarrow> if is_digit c then int_digits 0 s else None)"

definition py_repr :: "string \<Rightarrow> string" where
  \<comment> \<open>\<^verbatim>\<open>repr\<close> of a text without quotes, backslashes or control characters.\<close>
  "py_repr s = [CHR 0x27] @ s @ [CHR 0x27]"

definition c_isspace :: "char \<Rightarrow> bool" where
  \<comment> \<open>The whitespace \<^verbatim>\<open>int\<close> skips around an ASCII literal.\<close>
  "c_isspace c \<longleftrightarrow> c \<in> set [CHR 0x09, CHR 0x0A, CHR 0x0B, CHR 0x0C, CHR 0x0D, CHR 0x20]"

definition py_int :: "string \<Rightarrow> py_error + int" where
  \<comment> \<open>\<^verbatim>\<open>int(s)\<close>: surrounding whitespace, an optional sign, then the digits.\<close>
  "py_int s =
     (let t = rev (dropWhile c_isspace (rev (dropWhile c_isspace s)));
          r = (case t of
                 [] \<Rightarrow> None
               | c # cs \<Rightarrow>
                   if c = CHR ''-'' then map_option uminus (int_unsigned cs)
                   else if c = CHR ''+'' then int_unsigned cs
                   else int_unsigned t)
      in case r of
           None \<Rightarrow> Inl (ValueError (''invalid literal for int() with base 10: '' @ py_repr s))
         | Some n \<Rightarrow> Inr n)"

subsection \<open>The process and its file system\<close>

text \<open>
  \<open>environ\<close> is \<^verbatim>\<open>os.environ\<close>. \<open>files\<close> is what the operating system finds at a path
  text; a settings file is given by the bindings \<^verbatim>\<open>python-dotenv\<close> parses from it (the keys
  that have a value). \<open>cwd\<close> lists the components of the working directory below the root.
  \<open>pw_dir\<close> and \<open>pw_nam\<close> are the home directories of the password database, for
  \<^verbatim>\<open>os.path.expanduser\<close>.
\<close>

datatype node = Directory | File "string \<rightharpoonup> string"

record world =
  environ :: "string \<rightharpoonup> string"
  cwd :: "string list"
  files :: "string \<rightharpoonup> node"
  pw_dir :: "string option"
  pw_nam :: "string \<rightharpoonup> string"

definition path_str :: "string list \<Rightarrow> string" where
  "path_str cs = (if cs = [] then ''/'' else concat (map (\<lambda>c. ''/'' @ c) cs))"

fun parents :: "string list \<Rightarrow> string list list" where
  \<comment> \<open>\<^verbatim>\<open>Path.parents\<close>: the ancestors, nearest first, down to the root.\<close>
  "parents [] = []"
| "parents (c # cs) = butlast (c # cs) # parents (butlast (c # cs))"

definition path_exists :: "world \<Rightarrow> string \<Rightarrow> bool" where
  "path_exists w p \<longleftrightarrow> files w p \<noteq> None"

definition dotenv_values :: "world \<Rightarrow> string \<Rightarrow> (string \<rightharpoonup> string)" where
  \<comment> \<open>A path that is not a regular file reads as an empty stream.\<close>
  "dotenv_values w p = (case files w p of Some (File d) \<Rightarrow> d | _ \<Rightarrow> Map.empty)"

definition load_dotenv :: "string \<Rightarrow> bool \<Rightarrow> world \<Rightarrow> world" where
  \<comment> \<open>\<^verbatim>\<open>load_dotenv(path, override=False)\<close>: every binding of the file is written to
      \<^verbatim>\<open>os.environ\<close>, except, without \<^verbatim>\<open>override\<close>, for a key that is already there.\<close>
  "load_dotenv p override w =
     w\<lparr>environ := (if override then environ w ++ dotenv_values w p
                    else dotenv_values w p ++ environ w)\<rparr>"

definition getenv :: "world \<Rightarrow> string \<Rightarrow> string option" where
  "getenv w k = environ w k"

definition getenv_default :: "world \<Rightarrow> string \<Rightarrow> string \<Rightarrow> string" where
  "getenv_default w k d = (case environ w k of None \<Rightarrow> d | Some v \<Rightarrow> v)"

definition home_dir :: "world \<Rightarrow> string option" where
  \<comment> \<open>\<^verbatim>\<open>HOME\<close> when it is set, else the current user's entry of the password database.\<close>
  "home_dir w = (case environ w ''HOME'' of Some h \<Rightarrow> Some h | None \<Rightarrow> pw_dir w)"

definition expanduser :: "world \<Rightarrow> string \<Rightarrow> string" where
  \<comment> \<open>\<^verbatim>\<open>posixpath.expanduser\<close>.\<close>
  "expanduser w path =
     (case path of
        [] \<Rightarrow> path
      | t # after \<Rightarrow>
          if t \<noteq> CHR ''~'' then path
          else
            let name = takeWhile (\<lambda>c. c \<noteq> CHR ''/'') after;
                rest = dropWhile (\<lambda>c. c \<noteq> CHR ''/'') after;
                userhome =
                  (if name = [] then home_dir w else pw_nam w name)
            in case userhome of
                 None \<Rightarrow> path
               | Some h \<Rightarrow>
                   let r = rev (dropWhile (\<lambda>c. c = CHR ''/'') (rev h)) @ rest
                   in if r = [] then ''/'' else r)"

subsection \<open>\<^verbatim>\<open>SSHClient.__init__\<close>\<close>

record args =
  host_arg :: "string option"
  user_arg :: "string option"
  password_arg :: "string option"
  key_path_arg :: "string option"
  port_arg :: "int option"
  env_file :: "string option"

text \<open>
  The object. \<open>client\<close> is \<^verbatim>\<open>self._client\<close>: \<open>None\<close>, or a library client whose
  transport is active (\<open>Some True\<close>) or not (\<open>Some False\<close>).
\<close>

record ssh_client =
  host :: "string option"
  user :: "string option"
  password :: "string option"
  key_path :: "string option"
  port :: int
  client :: "bool option"

fun search_dotenv :: "string list list \<Rightarrow> world \<Rightarrow> world" where
  \<comment> \<open>The loop over the working directory and its parents; it stops at the first
      \<^verbatim>\<open>.env\<close> that exists.\<close>
  "search_dotenv [] w = w"
| "search_dotenv (parent # ps) w =
     (let env_path = path_str (parent @ [''.env''])
      in if path_exists w env_path then load_dotenv env_path False w
         else search_dotenv ps w)"

definition load_settings :: "string option \<Rightarrow> world \<Rightarrow> world" where
  "load_settings ef w =
     (if truthy ef then (case ef of Some p \<Rightarrow> load_dotenv p False w | None \<Rightarrow> w)
      else search_dotenv (cwd w # parents (cwd w)) w)"

definition resolve_port :: "int option \<Rightarrow> world \<Rightarrow> py_error + int" where
  \<comment> \<open>\<^verbatim>\<open>port or int(os.getenv("SSH_PORT", "22"))\<close>: \<^verbatim>\<open>int\<close> runs only when the
      argument is \<^verbatim>\<open>None\<close> or 0.\<close>
  "resolve_port p w =
     (case p of
        Some n \<Rightarrow> if n \<noteq> 0 then Inr n else py_int (getenv_default w ''SSH_PORT'' ''22'')
      | None \<Rightarrow> py_int (getenv_default w ''SSH_PORT'' ''22''))"

definition init :: "args \<Rightarrow> world \<Rightarrow> (py_error + ssh_client) \<times> world" where
  "init a w0 =
     (let w = load_settings (env_file a) w0;
          h = py_or (host_arg a) (getenv w ''SSH_HOST'');
          u = py_or (user_arg a) (getenv w ''SSH_USER'');
          pw = py_or (password_arg a) (getenv w ''SSH_PASSWORD'');
          kp = py_or (key_path_arg a) (getenv w ''SSH_KEY_PATH'')
      in case resolve_port (port_arg a) w of
           Inl e \<Rightarrow> (Inl e, w)
         | Inr pt \<Rightarrow>
             if \<not> truthy h then
               (Inl (ValueError ''SSH_HOST not set in .env or passed as argument''), w)
             else if \<not> truthy u then
               (Inl (ValueError ''SSH_USER not set in .env or passed as argument''), w)
             else if \<not> truthy pw \<and> \<not> truthy kp then
               (Inl (ValueError ''SSH_PASSWORD or SSH_KEY_PATH required in .env or as argument''), w)
             else
               (Inr \<lparr>host = h, user = u, password = pw,
                     key_path = (if truthy kp then map_option (expanduser w) kp else kp),
                     port = pt, client = None\<rparr>, w))"

subsection \<open>The session: \<^verbatim>\<open>connect\<close>, \<^verbatim>\<open>run\<close>, \<^verbatim>\<open>close\<close>\<close>

text \<open>
  The SSH library is outside the script. \<open>network\<close> holds what it answers
  (\<open>connect_outcome\<close>: the exception of \<^verbatim>\<open>connect(**kwargs)\<close>, if any; \<open>exec_outcome\<close>:
  the decoded output and error text of a command, or the exception of executing, reading
  or decoding; \<open>shell_outcome\<close>: the exception of \<^verbatim>\<open>invoke_shell\<close>, if any) and the calls
  the script has made so far. A call on a client without an active transport raises
  \<open>NotActive\<close>.
\<close>

datatype kwval = StrV string | IntV int | NoneV

definition kw_of :: "string option \<Rightarrow> kwval" where
  "kw_of x = (case x of None \<Rightarrow> NoneV | Some s \<Rightarrow> StrV s)"

datatype call =
    Connect "(string \<times> kwval) list"
  | ExecCommand string int
  | InvokeShell
  | Close

record network =
  connect_outcome :: "(string \<times> kwval) list \<Rightarrow> py_error option"
  exec_outcome :: "string \<Rightarrow> int \<Rightarrow> py_error + string \<times> string"
  shell_outcome :: "py_error option"
  calls :: "call list"

definition connect_kwargs :: "ssh_client \<Rightarrow> (string \<times> kwval) list" where
  "connect_kwargs s =
     [(''hostname'', kw_of (host s)), (''port'', IntV (port s)), (''username'', kw_of (user s))]
     @ (if truthy (key_path s) then [(''key_filename'', kw_of (key_path s))]
        else [(''password'', kw_of (password s))])"

definition connect :: "ssh_client \<Rightarrow> network \<Rightarrow> (py_error + unit) \<times> ssh_client \<times> network" where
  \<comment> \<open>The new client is stored before the library connects, so it stays after a failure.\<close>
  "connect s n =
     (let kw = connect_kwargs s;
          n' = n\<lparr>calls := calls n @ [Connect kw]\<rparr>
      in case connect_outcome n kw of
           Some e \<Rightarrow> (Inl e, s\<lparr>client := Some False\<rparr>, n')
         | None \<Rightarrow> (Inr (), s\<lparr>client := Some True\<rparr>, n'))"

definition ensure_client :: "ssh_client \<Rightarrow> network \<Rightarrow> (py_error + unit) \<times> ssh_client \<times> network" where
  \<comment> \<open>\<^verbatim>\<open>if not self._client: self.connect()\<close>\<close>
  "ensure_client s n = (if client s = None then connect s n else (Inr (), s, n))"

definition merge_output :: "string \<Rightarrow> string \<Rightarrow> string" where
  "merge_output output errors =
     (if errors \<noteq> [] then strip (output @ ''\<newline>'' @ errors) else strip output)"

definition run :: "ssh_client \<Rightarrow> string \<Rightarrow> int \<Rightarrow> network \<Rightarrow> (py_error + string) \<times> ssh_client \<times> network" where
  "run s command timeout n =
     (case ensure_client s n of
        (Inl e, s1, n1) \<Rightarrow> (Inl e, s1, n1)
      | (Inr _, s1, n1) \<Rightarrow>
          let n2 = n1\<lparr>calls := calls n1 @ [ExecCommand command timeout]\<rparr>
          in if client s1 \<noteq> Some True then (Inl NotActive, s1, n2)
             else (case exec_outcome n command timeout of
                     Inl e \<Rightarrow> (Inl e, s1, n2)
                   | Inr (output, errors) \<Rightarrow> (Inr (merge_output output errors), s1, n2)))"

definition close :: "ssh_client \<Rightarrow> network \<Rightarrow> ssh_client \<times> network" where
  "close s n =
     (case client s of
        None \<Rightarrow> (s, n)
      | Some _ \<Rightarrow> (s\<lparr>client := None\<rparr>, n\<lparr>calls := calls n @ [Close]\<rparr>))"

subsection \<open>\<^verbatim>\<open>interactive_shell\<close>\<close>

text \<open>
  The loop runs until the user stops it, so the model reads a list of observations, one for
  each turn of the loop, and answers \<open>Running\<close> when the list ends before the loop does.
  A turn sees the remote text that is ready, if any, and then the keyboard: nothing ready,
  a line from \<^verbatim>\<open>readline\<close> (with its newline), or, where \<^verbatim>\<open>select\<close> raises, the answer
  of \<^verbatim>\<open>input()\<close> (the line without its newline, \<open>None\<close> for \<^verbatim>\<open>EOFError\<close>) and the chunks
  drained afterwards. \<open>Interrupt\<close> is a turn cut by \<^verbatim>\<open>KeyboardInterrupt\<close>.
\<close>

datatype stdin_event = NotReady | Line string | NoSelect "string option" "string list"

datatype tick = Tick "string option" stdin_event | Interrupt

datatype outcome = Exited | Disconnected | Running

record io =
  sent :: "string list"
  shown :: "string list"

definition is_exit :: "string \<Rightarrow> bool" where
  \<comment> \<open>\<^verbatim>\<open>cmd.strip().lower() == "exit"\<close>\<close>
  "is_exit cmd \<longleftrightarrow> lower (strip cmd) = ''exit''"

definition display :: "string \<Rightarrow> io \<Rightarrow> io" where
  "display d x = x\<lparr>shown := shown x @ [d]\<rparr>"

definition send :: "string \<Rightarrow> io \<Rightarrow> io" where
  "send d x = x\<lparr>sent := sent x @ [d]\<rparr>"

fun relay_loop :: "tick list \<Rightarrow> io \<Rightarrow> (py_error + outcome) \<times> io" where
  "relay_loop [] x = (Inr Running, x)"
| "relay_loop (Interrupt # ts) x = (Inr Disconnected, display ''\<newline>Disconnected\<newline>'' x)"
| "relay_loop (Tick r ev # ts) x =
     (let x1 = (case r of None \<Rightarrow> x | Some d \<Rightarrow> display d x)
      in case ev of
           NotReady \<Rightarrow> relay_loop ts x1
         | Line cmd \<Rightarrow>
             if is_exit cmd then (Inr Exited, x1) else relay_loop ts (send cmd x1)
         | NoSelect None drained \<Rightarrow> (Inl EOFError, x1)
         | NoSelect (Some cmd) drained \<Rightarrow>
             if is_exit cmd then (Inr Exited, x1)
             else relay_loop ts (fold display drained (send (cmd @ ''\<newline>'') x1)))"

definition fmt :: "string option \<Rightarrow> string" where
  "fmt x = (case x of None \<Rightarrow> ''None'' | Some s \<Rightarrow> s)"

definition banner :: "ssh_client \<Rightarrow> io \<Rightarrow> io" where
  \<comment> \<open>The two lines printed once the shell is open.\<close>
  "banner s x =
     display ''Type 'exit' to disconnect\<newline>\<newline>''
       (display (''Connected to '' @ fmt (user s) @ ''@'' @ fmt (host s) @ ''\<newline>'') x)"

definition interactive_shell ::
  "ssh_client \<Rightarrow> tick list \<Rightarrow> network \<Rightarrow> io \<Rightarrow> ((py_error + outcome) \<times> io) \<times> ssh_client \<times> network" where
  "interactive_shell s ticks n x =
     (case ensure_client s n of
        (Inl e, s1, n1) \<Rightarrow> ((Inl e, x), s1, n1)
      | (Inr _, s1, n1) \<Rightarrow>
          let n2 = n1\<lparr>calls := calls n1 @ [InvokeShell]\<rparr>
          in if client s1 \<noteq> Some True then ((Inl NotActive, x), s1, n2)
             else (case shell_outcome n of
                     Some e \<Rightarrow> ((Inl e, x), s1, n2)
                   | None \<Rightarrow> (relay_loop ticks (banner s1 x), s1, n2)))"

subsection \<open>Notions used to state the properties\<close>

text \<open>
  \<open>settings_path\<close> is the settings file that \<open>load_settings\<close> hands to
  \<^verbatim>\<open>load_dotenv\<close>, \<open>settings_values\<close> its bindings, and \<open>env_then_file\<close> the value a
  variable has once the file is loaded: the one the process environment had, else the one
  of the file. \<open>port_text\<close> is the text \<^verbatim>\<open>int\<close> is applied to. \<open>typed_line\<close> is the line the
  user typed in a turn of the loop (\<^verbatim>\<open>input()\<close> hands it over without its newline), and
  \<open>keeps_running\<close> says that a turn neither types \<^verbatim>\<open>exit\<close> nor ends the loop otherwise.
\<close>

definition settings_path :: "string option \<Rightarrow> world \<Rightarrow> string option" where
  "settings_path ef w =
     (if truthy ef then ef
      else find (path_exists w) (map (\<lambda>d. path_str (d @ [''.env''])) (cwd w # parents (cwd w))))"

definition settings_values :: "string option \<Rightarrow> world \<Rightarrow> (string \<rightharpoonup> string)" where
  "settings_values ef w = (case settings_path ef w of None \<Rightarrow> Map.empty | Some p \<Rightarrow> dotenv_values w p)"

definition env_then_file :: "string option \<Rightarrow> world \<Rightarrow> string \<Rightarrow> string option" where
  "env_then_file ef w k = (case environ w k of Some v \<Rightarrow> Some v | None \<Rightarrow> settings_values ef w k)"

definition port_text :: "string option \<Rightarrow> world \<Rightarrow> string" where
  "port_text ef w = (case env_then_file ef w ''SSH_PORT'' of None \<Rightarrow> ''22'' | Some v \<Rightarrow> v)"

fun typed_line :: "tick \<Rightarrow> string option" where
  "typed_line (Tick r (Line cmd)) = Some cmd"
| "typed_line (Tick r (NoSelect (Some cmd) drained)) = Some (cmd @ ''\<newline>'')"
| "typed_line (Tick r (NoSelect None drained)) = None"
| "typed_line (Tick r NotReady) = None"
| "typed_line Interrupt = None"

fun keeps_running :: "tick \<Rightarrow> bool" where
  "keeps_running (Tick r (Line cmd)) = (\<not> is_exit cmd)"
| "keeps_running (Tick r (NoSelect (Some cmd) drained)) = (\<not> is_exit (cmd @ ''\<newline>''))"
| "keeps_running (Tick r (NoSelect None drained)) = False"
| "keeps_running (Tick r NotReady) = True"
| "keeps_running Interrupt = False"

subsection \<open>Example inputs\<close>

definition no_args :: args where
  "no_args = \<lparr>host_arg = None, user_arg = None, password_arg = None, key_path_arg = None,
               port_arg = None, env_file = None\<rparr>"

definition creds_args :: args where
  "creds_args = no_args\<lparr>host_arg := Some ''h'', user_arg := Some ''u'', password_arg := Some ''secret''\<rparr>"

definition both_args :: args where
  "both_args = creds_args\<lparr>key_path_arg := Some ''/keys/id_rsa''\<rparr>"

definition host_args :: args where
  "host_args = no_args\<lparr>host_arg := Some ''arg-host''\<rparr>"

definition bare_world :: world where
  "bare_world = \<lparr>environ = Map.empty, cwd = [''srv'', ''app''], files = Map.empty,
                  pw_dir = Some ''/home/admin'', pw_nam = Map.empty\<rparr>"

definition dotenv_world :: world where
  "dotenv_world = bare_world\<lparr>files := [''/srv/app/.env'' \<mapsto>
      File [''SSH_HOST'' \<mapsto> ''h'', ''SSH_USER'' \<mapsto> ''u'', ''SSH_KEY_PATH'' \<mapsto> ''~/.ssh/id_rsa'']]\<rparr>"

definition clash_world :: world where
  "clash_world = bare_world\<lparr>
      environ := [''SSH_HOST'' \<mapsto> ''env-host''],
      files := [''/srv/.env'' \<mapsto>
        File [''SSH_HOST'' \<mapsto> ''file-host'', ''SSH_USER'' \<mapsto> ''u'', ''SSH_PASSWORD'' \<mapsto> ''p'']]\<rparr>"

definition port_world :: "string \<Rightarrow> world" where
  "port_world v = bare_world\<lparr>environ := [''SSH_PORT'' \<mapsto> v]\<rparr>"

definition open_session :: ssh_client where
  "open_session = \<lparr>host = Some ''h'', user = Some ''u'', password = Some ''p'', key_path = None,
                    port = 22, client = Some True\<rparr>"

definition fresh_session :: ssh_client where
  "fresh_session = open_session\<lparr>client := None\<rparr>"

definition echo_network :: network where
  "echo_network = \<lparr>connect_outcome = (\<lambda>kw. None),
                     exec_outcome = (\<lambda>c t. Inr (''  hello\<newline>'', [])),
                     shell_outcome = None, calls = []\<rparr>"

definition refusing_network :: network where
  "refusing_network = echo_network\<lparr>connect_outcome := (\<lambda>kw. Some AuthenticationException)\<rparr>"

definition typed_ticks :: "tick list" where
  "typed_ticks = [Tick (Some ''$ '') (Line ''ls\<newline>''), Tick None NotReady,
                  Tick None (NoSelect (Some ''pwd'') [''/root\<newline>''])]"

definition empty_io :: io where
  "empty_io = \<lparr>sent = [], shown = []\<rparr>"

section \<open>Properties\<close>

subsection \<open>Auxiliary facts\<close>

lemmas resolver_defs =
  init_def load_settings_def truthy_def py_or_def getenv_def getenv_default_def resolve_port_def
  path_str_def path_exists_def load_dotenv_def dotenv_values_def map_add_def Let_def
  py_int_def c_isspace_def strip_def lstrip_def rstrip_def isspace_def int_unsigned_def is_digit_def
  digit_val_def expanduser_def home_dir_def py_repr_def
  settings_values_def settings_path_def env_then_file_def port_text_def
  no_args_def bare_world_def dotenv_world_def clash_world_def

lemmas input_defs = creds_args_def both_args_def host_args_def

lemmas session_defs =
  run_def ensure_client_def connect_def connect_kwargs_def kw_of_def merge_output_def close_def
  interactive_shell_def banner_def fmt_def display_def send_def
  open_session_def fresh_session_def echo_network_def refusing_network_def
  strip_def lstrip_def rstrip_def isspace_def truthy_def Let_def

lemmas relay_defs =
  is_exit_def lower_def lower_char_def strip_def lstrip_def rstrip_def isspace_def
  display_def send_def typed_ticks_def empty_io_def Let_def

lemma load_dotenv_False: "load_dotenv p False w = w\<lparr>environ := dotenv_values w p ++ environ w\<rparr>"
  by (simp add: load_dotenv_def)

lemma search_dotenv_find:
  "search_dotenv ds w =
     (case find (path_exists w) (map (\<lambda>d. path_str (d @ [''.env''])) ds) of
        None \<Rightarrow> w
      | Some p \<Rightarrow> load_dotenv p False w)"
  by (induction ds) (simp_all add: Let_def)

lemma load_settings_eq:
  "load_settings ef w = w\<lparr>environ := settings_values ef w ++ environ w\<rparr>"
proof (cases "truthy ef")
  case True
  then obtain p where "ef = Some p" by (cases ef) (simp_all add: truthy_def)
  with True show ?thesis
    by (simp add: load_settings_def settings_values_def settings_path_def load_dotenv_False)
next
  case False
  then show ?thesis
    by (simp add: load_settings_def settings_values_def settings_path_def search_dotenv_find
        load_dotenv_False split: option.split)
qed

lemma environ_load_settings:
  "environ (load_settings ef w) k = env_then_file ef w k"
  by (simp add: load_settings_eq env_then_file_def map_add_def split: option.split)

lemma snd_init: "snd (init a w) = load_settings (env_file a) w"
  by (simp add: init_def Let_def split: sum.split)

lemma getenv_load_settings: "getenv (load_settings ef w) k = env_then_file ef w k"
  by (simp add: getenv_def environ_load_settings)

lemma getenv_default_load_settings:
  "getenv_default (load_settings ef w) ''SSH_PORT'' ''22'' = port_text ef w"
  by (simp add: getenv_default_def port_text_def environ_load_settings)

lemma resolve_port_eq:
  "resolve_port p (load_settings ef w) =
     (case p of Some n \<Rightarrow> if n \<noteq> 0 then Inr n else py_int (port_text ef w)
              | None \<Rightarrow> py_int (port_text ef w))"
  by (simp add: resolve_port_def getenv_default_load_settings split: option.split)

lemma py_int_error: "py_int v = Inl e \<Longrightarrow> \<exists>m. e = ValueError m"
  by (auto simp: py_int_def Let_def split: option.splits)

lemma py_int_22: "py_int ''22'' = Inr 22"
  by (simp add: py_int_def c_isspace_def int_unsigned_def is_digit_def digit_val_def)

lemma resolve_port_error: "resolve_port p w = Inl e \<Longrightarrow> \<exists>m. e = ValueError m"
  by (auto simp: resolve_port_def dest: py_int_error split: option.splits if_splits)

lemma expanduser_nonempty: "p \<noteq> [] \<Longrightarrow> expanduser w p \<noteq> []"
  by (auto simp: expanduser_def Let_def split: list.splits option.splits)

lemma expanduser_Nil: "expanduser w [] = []"
  by (simp add: expanduser_def)

lemma init_Inr:
  assumes "init a w = (Inr s, w')"
  shows "w' = load_settings (env_file a) w"
    and "host s = py_or (host_arg a) (env_then_file (env_file a) w ''SSH_HOST'')"
    and "user s = py_or (user_arg a) (env_then_file (env_file a) w ''SSH_USER'')"
    and "password s = py_or (password_arg a) (env_then_file (env_file a) w ''SSH_PASSWORD'')"
    and "key_path s = map_option (expanduser w')
                        (py_or (key_path_arg a) (env_then_file (env_file a) w ''SSH_KEY_PATH''))"
    and "resolve_port (port_arg a) w' = Inr (port s)"
    and "client s = None"
    and "truthy (host s)" and "truthy (user s)" and "truthy (password s) \<or> truthy (key_path s)"
proof -
  let ?kp = "py_or (key_path_arg a) (env_then_file (env_file a) w ''SSH_KEY_PATH'')"
  have kp: "\<not> truthy ?kp \<Longrightarrow> map_option (expanduser (load_settings (env_file a) w)) ?kp = ?kp"
    by (cases ?kp) (simp_all add: truthy_def expanduser_Nil)
  have kp2: "truthy ?kp \<Longrightarrow> truthy (map_option (expanduser (load_settings (env_file a) w)) ?kp)"
    by (cases ?kp) (simp_all add: truthy_def expanduser_nonempty)
  from assms show "w' = load_settings (env_file a) w"
    by (simp add: init_def Let_def split: sum.splits if_splits)
  from assms show "host s = py_or (host_arg a) (env_then_file (env_file a) w ''SSH_HOST'')"
    by (auto simp add: init_def Let_def getenv_load_settings split: sum.splits if_splits)
  from assms show "user s = py_or (user_arg a) (env_then_file (env_file a) w ''SSH_USER'')"
    by (auto simp add: init_def Let_def getenv_load_settings split: sum.splits if_splits)
  from assms show "password s = py_or (password_arg a) (env_then_file (env_file a) w ''SSH_PASSWORD'')"
    by (auto simp add: init_def Let_def getenv_load_settings split: sum.splits if_splits)
  from assms kp show "key_path s = map_option (expanduser w') ?kp"
    by (auto simp add: init_def Let_def getenv_load_settings split: sum.splits if_splits)
  from assms show "resolve_port (port_arg a) w' = Inr (port s)"
    by (auto simp add: init_def Let_def getenv_load_settings split: sum.splits if_splits)
  from assms show "client s = None"
    by (auto simp add: init_def Let_def getenv_load_settings split: sum.splits if_splits)
  from assms show "truthy (host s)"
    by (auto simp add: init_def Let_def getenv_load_settings split: sum.splits if_splits)
  from assms show "truthy (user s)"
    by (auto simp add: init_def Let_def getenv_load_settings split: sum.splits if_splits)
  from assms kp2 show "truthy (password s) \<or> truthy (key_path s)"
    by (auto simp add: init_def Let_def getenv_load_settings split: sum.splits if_splits)
qed

lemma rstrip_split: "rev (dropWhile P (rev xs)) @ rev (takeWhile P (rev xs)) = xs"
proof -
  have "rev (dropWhile P (rev xs)) @ rev (takeWhile P (rev xs))
        = rev (takeWhile P (rev xs) @ dropWhile P (rev xs))"
    by (simp only: rev_append)
  then show ?thesis by simp
qed

lemma lstrip_eq: "\<exists>suf. lstrip s = strip s @ suf \<and> (\<forall>c\<in>set suf. isspace c)"
proof -
  have "strip s @ rev (takeWhile isspace (rev (lstrip s))) = lstrip s"
    using rstrip_split [of isspace "lstrip s"] by (simp add: strip_def rstrip_def)
  moreover have "\<forall>c\<in>set (rev (takeWhile isspace (rev (lstrip s)))). isspace c"
    by (auto dest: set_takeWhileD)
  ultimately show ?thesis by metis
qed

lemma strip_decomp:
  "\<exists>pre suf. s = pre @ strip s @ suf \<and> (\<forall>c\<in>set pre. isspace c) \<and> (\<forall>c\<in>set suf. isspace c)"
proof -
  obtain suf where suf: "lstrip s = strip s @ suf" "\<forall>c\<in>set suf. isspace c"
    using lstrip_eq by blast
  have "takeWhile isspace s @ lstrip s = s" by (simp add: lstrip_def)
  then have "s = takeWhile isspace s @ strip s @ suf" by (simp only: suf(1))
  moreover have "\<forall>c\<in>set (takeWhile isspace s). isspace c" by (auto dest: set_takeWhileD)
  ultimately show ?thesis using suf(2) by blast
qed

lemma strip_ends:
  assumes "strip s \<noteq> []"
  shows "\<not> isspace (hd (strip s)) \<and> \<not> isspace (last (strip s))"
proof -
  from assms have ne: "dropWhile isspace (rev (lstrip s)) \<noteq> []"
    by (simp add: strip_def rstrip_def)
  have "last (strip s) = hd (dropWhile isspace (rev (lstrip s)))"
    using ne by (simp add: strip_def rstrip_def last_rev)
  with ne have l: "\<not> isspace (last (strip s))" by (simp add: hd_dropWhile)
  obtain suf where suf: "lstrip s = strip s @ suf" using lstrip_eq by blast
  from suf assms have h: "hd (dropWhile isspace s) = hd (strip s)"
    by (simp add: lstrip_def)
  from suf assms have "dropWhile isspace s \<noteq> []" by (simp add: lstrip_def)
  then have "\<not> isspace (hd (dropWhile isspace s))" by (rule hd_dropWhile)
  with h l show ?thesis by simp
qed

lemma rstrip_newline: "rstrip (s @ ''\<newline>'') = rstrip s"
  by (simp add: rstrip_def isspace_def)

lemma strip_newline: "strip (s @ ''\<newline>'') = strip s"
proof (cases "\<forall>c\<in>set s. isspace c")
  case True
  have nl: "isspace CHR ''\<newline>''" by (simp add: isspace_def)
  from True have a: "dropWhile isspace s = []" by simp
  from True nl have "\<forall>c\<in>set (s @ ''\<newline>''). isspace c" by simp
  then have b: "dropWhile isspace (s @ ''\<newline>'') = []"
    by (simp only: dropWhile_eq_Nil_conv)
  show ?thesis by (simp only: strip_def lstrip_def a b)
next
  case False
  then have "dropWhile isspace (s @ ''\<newline>'') = dropWhile isspace s @ ''\<newline>''"
    by (auto simp: dropWhile_append1)
  then show ?thesis by (simp add: strip_def lstrip_def rstrip_newline)
qed

lemma is_exit_newline: "is_exit (cmd @ ''\<newline>'') = is_exit cmd"
  by (simp add: is_exit_def strip_newline)

lemma sent_display [simp]: "sent (display d x) = sent x"
  by (simp add: display_def)

lemma sent_fold_display [simp]: "sent (fold display ds x) = sent x"
  by (induction ds arbitrary: x) simp_all

lemma sent_send [simp]: "sent (send d x) = sent x @ [d]"
  by (simp add: send_def)

lemma relay_prefix:
  "\<forall>t\<in>set pre. keeps_running t \<Longrightarrow>
     \<exists>x'. relay_loop (pre @ rest) x = relay_loop rest x'
          \<and> sent x' = sent x @ List.map_filter typed_line pre"
proof (induction pre arbitrary: x)
  case Nil
  show ?case by (rule exI [of _ x]) (simp add: List.map_filter_simps)
next
  case (Cons t pre)
  then have k: "keeps_running t" and rest: "\<forall>t\<in>set pre. keeps_running t" by simp_all
  show ?case
  proof (cases t)
    case Interrupt
    with k show ?thesis by simp
  next
    case (Tick r ev)
    define x1 where "x1 = (case r of None \<Rightarrow> x | Some d \<Rightarrow> display d x)"
    have s1: "sent x1 = sent x" by (simp add: x1_def split: option.split)
    show ?thesis
    proof (cases ev)
      case NotReady
      from Cons.IH [OF rest, of x1] obtain x' where
        "relay_loop (pre @ rest) x1 = relay_loop rest x'" "sent x' = sent x1 @ List.map_filter typed_line pre"
        by blast
      with Tick NotReady s1 show ?thesis
        by (auto simp: x1_def List.map_filter_simps)
    next
      case (Line cmd)
      from Cons.IH [OF rest, of "send cmd x1"] obtain x' where
        "relay_loop (pre @ rest) (send cmd x1) = relay_loop rest x'"
        "sent x' = sent (send cmd x1) @ List.map_filter typed_line pre"
        by blast
      with Tick Line s1 k show ?thesis
        by (auto simp: x1_def List.map_filter_simps)
    next
      case (NoSelect inp drained)
      with Tick k obtain cmd where inp: "inp = Some cmd" by (cases inp) simp_all
      from Cons.IH [OF rest, of "fold display drained (send (cmd @ ''\<newline>'') x1)"] obtain x' where
        "relay_loop (pre @ rest) (fold display drained (send (cmd @ ''\<newline>'') x1)) = relay_loop rest x'"
        "sent x' = sent (fold display drained (send (cmd @ ''\<newline>'') x1)) @ List.map_filter typed_line pre"
        by blast
      with Tick NoSelect inp s1 k show ?thesis
        by (auto simp: x1_def List.map_filter_simps is_exit_newline)
    qed
  qed
qed

lemma relay_exit_line:
  "typed_line t = Some l \<Longrightarrow> is_exit l \<Longrightarrow>
     fst (relay_loop (t # post) x) = Inr Exited \<and> sent (snd (relay_loop (t # post) x)) = sent x"
  by (cases t rule: typed_line.cases) (auto simp: is_exit_newline split: option.split)

subsection \<open>C1: order of the sources\<close>

text \<open>
  C1, as amended. For each of host, user, password and key path the result of a successful
  resolution is the argument when it is a non-empty text; otherwise the value of the
  environment variable as the process had it before resolution, when it was set at all (even
  to the empty text); otherwise the value of the settings file. The key path is passed
  through \<^verbatim>\<open>expanduser\<close>. The port is the argument when it is not 0; otherwise it is \<^verbatim>\<open>int\<close>
  of the text found in the same order, \<^verbatim>\<open>"22"\<close> when there is none.
\<close>

theorem resolution_order:
  assumes "init a w = (Inr s, w')"
  shows "host s = py_or (host_arg a) (env_then_file (env_file a) w ''SSH_HOST'')
       \<and> user s = py_or (user_arg a) (env_then_file (env_file a) w ''SSH_USER'')
       \<and> password s = py_or (password_arg a) (env_then_file (env_file a) w ''SSH_PASSWORD'')
       \<and> key_path s = map_option (expanduser w')
                         (py_or (key_path_arg a) (env_then_file (env_file a) w ''SSH_KEY_PATH''))
       \<and> Inr (port s) =
           (case port_arg a of
              Some n \<Rightarrow> if n \<noteq> 0 then Inr n else py_int (port_text (env_file a) w)
            | None \<Rightarrow> py_int (port_text (env_file a) w))"
  using init_Inr(1-6) [OF assms] resolve_port_eq [of "port_arg a" "env_file a" w]
  by simp

text \<open>
  C1 as stated fails: with \<^verbatim>\<open>SSH_HOST=env-host\<close> in the process environment and
  \<^verbatim>\<open>SSH_HOST=file-host\<close> in the settings file found above the working directory,
  \<^verbatim>\<open>SSHClient()\<close> has host \<^verbatim>\<open>env-host\<close>: \<^verbatim>\<open>load_dotenv\<close> leaves a variable that is
  already set alone.
\<close>

theorem resolution_order_counterexample:
  "settings_values None clash_world ''SSH_HOST'' = Some ''file-host''
   \<and> environ clash_world ''SSH_HOST'' = Some ''env-host''
   \<and> fst (init no_args clash_world)
       = Inr \<lparr>host = Some ''env-host'', user = Some ''u'', password = Some ''p'',
               key_path = None, port = 22, client = None\<rparr>"
  by (simp add: resolver_defs)

text \<open>
  An instance: the host argument beats the environment, and user and password come from
  the settings file, the environment having neither.
\<close>

theorem resolution_order_witness:
  "fst (init host_args clash_world)
     = Inr \<lparr>host = Some ''arg-host'', user = Some ''u'', password = Some ''p'',
             key_path = None, port = 22, client = None\<rparr>
   \<and> py_or (host_arg host_args) (env_then_file (env_file host_args) clash_world ''SSH_HOST'')
       = Some ''arg-host''
   \<and> py_or (user_arg host_args) (env_then_file (env_file host_args) clash_world ''SSH_USER'')
       = Some ''u''"
proof -
  have f: "fst (init host_args clash_world)
     = Inr \<lparr>host = Some ''arg-host'', user = Some ''u'', password = Some ''p'',
             key_path = None, port = 22, client = None\<rparr>"
    by (simp add: resolver_defs input_defs)
  then have i: "init host_args clash_world
     = (Inr \<lparr>host = Some ''arg-host'', user = Some ''u'', password = Some ''p'',
             key_path = None, port = 22, client = None\<rparr>, snd (init host_args clash_world))"
    by (metis prod.collapse)
  note r = resolution_order [OF i]
  from r have h: "py_or (host_arg host_args) (env_then_file (env_file host_args) clash_world ''SSH_HOST'')
       = Some ''arg-host''" by simp
  from r have u: "py_or (user_arg host_args) (env_then_file (env_file host_args) clash_world ''SSH_USER'')
       = Some ''u''" by simp
  from f h u show ?thesis by blast
qed

subsection \<open>C2: the text returned by run\<close>

text \<open>
  C2, as amended. On an open session (or one that \<open>run\<close> opens itself), when the command
  yields output and error text, \<open>run\<close> returns the output alone if the error text is empty
  and otherwise output, newline, error text; in both cases with the whitespace removed at
  both ends and nothing else: the text is the result between a prefix and a suffix of
  whitespace, and the result neither starts nor ends with whitespace.
\<close>

theorem run_output:
  assumes "client s = Some True \<or> (client s = None \<and> connect_outcome n (connect_kwargs s) = None)"
    and "exec_outcome n command timeout = Inr (output, errors)"
  shows "\<exists>pre suf r.
           fst (run s command timeout n) = Inr r
           \<and> r = strip (if errors = [] then output else output @ ''\<newline>'' @ errors)
           \<and> (if errors = [] then output else output @ ''\<newline>'' @ errors) = pre @ r @ suf
           \<and> (\<forall>c\<in>set pre. isspace c) \<and> (\<forall>c\<in>set suf. isspace c)
           \<and> (r \<noteq> [] \<longrightarrow> \<not> isspace (hd r) \<and> \<not> isspace (last r))"
proof -
  let ?full = "if errors = [] then output else output @ ''\<newline>'' @ errors"
  have r: "fst (run s command timeout n) = Inr (strip ?full)"
    using assms by (auto simp: run_def ensure_client_def connect_def merge_output_def Let_def)
  obtain pre suf where d: "?full = pre @ strip ?full @ suf"
      "\<forall>c\<in>set pre. isspace c" "\<forall>c\<in>set suf. isspace c"
    using strip_decomp [of ?full] by blast
  have e: "strip ?full \<noteq> [] \<longrightarrow> \<not> isspace (hd (strip ?full)) \<and> \<not> isspace (last (strip ?full))"
    using strip_ends [of ?full] by blast
  from r d e show ?thesis by blast
qed

text \<open>
  C2 as stated fails: for the output made of two spaces, \<^verbatim>\<open>hello\<close> and a newline, and no
  error text, \<open>run\<close> returns \<^verbatim>\<open>"hello"\<close>, while trimming trailing whitespace only gives
  \<^verbatim>\<open>"  hello"\<close>.
\<close>

theorem run_output_counterexample:
  "exec_outcome echo_network ''ls'' 30 = Inr (''  hello\<newline>'', [])
   \<and> fst (run open_session ''ls'' 30 echo_network) = Inr ''hello''
   \<and> rstrip ''  hello\<newline>'' = ''  hello''"
  by (simp add: session_defs)

text \<open>
  An instance of the amended property.
\<close>

theorem run_output_witness:
  "client open_session = Some True
   \<and> exec_outcome echo_network ''ls'' 30 = Inr (''  hello\<newline>'', [])
   \<and> fst (run open_session ''ls'' 30 echo_network) = Inr ''hello''"
proof -
  have c: "client open_session = Some True
           \<or> (client open_session = None
              \<and> connect_outcome echo_network (connect_kwargs open_session) = None)"
    by (simp add: open_session_def)
  have e: "exec_outcome echo_network ''ls'' 30 = Inr (''  hello\<newline>'', [])"
    by (simp add: echo_network_def)
  from run_output [OF c e] have "fst (run open_session ''ls'' 30 echo_network) = Inr (strip ''  hello\<newline>'')"
    by auto
  then show ?thesis using e by (simp add: open_session_def strip_def lstrip_def rstrip_def isspace_def)
qed

subsection \<open>C3: password and key path\<close>

text \<open>
  C3, as amended. After a successful resolution the object holds the password as it
  resolved and the key path as it resolved (passed through \<^verbatim>\<open>expanduser\<close>), each whatever
  the other is: both are kept when the sources supply both. At least one of them is a
  non-empty text. \<open>connect\<close> hands exactly one of them to the library: the key path as
  \<^verbatim>\<open>key_filename\<close> when it is non-empty, and no password then; otherwise the password.
\<close>

theorem auth_selection:
  assumes "init a w = (Inr s, w')"
  shows "password s = py_or (password_arg a) (env_then_file (env_file a) w ''SSH_PASSWORD'')
       \<and> key_path s = map_option (expanduser w')
                         (py_or (key_path_arg a) (env_then_file (env_file a) w ''SSH_KEY_PATH''))
       \<and> (truthy (py_or (password_arg a) (env_then_file (env_file a) w ''SSH_PASSWORD''))
          \<and> truthy (py_or (key_path_arg a) (env_then_file (env_file a) w ''SSH_KEY_PATH''))
          \<longrightarrow> truthy (password s) \<and> truthy (key_path s))
       \<and> (truthy (password s) \<or> truthy (key_path s))
       \<and> (truthy (key_path s) \<longrightarrow>
            map_of (connect_kwargs s) ''key_filename'' = Some (kw_of (key_path s))
            \<and> map_of (connect_kwargs s) ''password'' = None)
       \<and> (\<not> truthy (key_path s) \<longrightarrow>
            truthy (password s)
            \<and> map_of (connect_kwargs s) ''password'' = Some (kw_of (password s))
            \<and> map_of (connect_kwargs s) ''key_filename'' = None)"
proof -
  let ?pw = "py_or (password_arg a) (env_then_file (env_file a) w ''SSH_PASSWORD'')"
  let ?kp = "py_or (key_path_arg a) (env_then_file (env_file a) w ''SSH_KEY_PATH'')"
  have p: "password s = ?pw" by (rule init_Inr(4) [OF assms])
  have k: "key_path s = map_option (expanduser w') ?kp" by (rule init_Inr(5) [OF assms])
  have x: "truthy (map_option (expanduser w') ?kp)" if "truthy ?kp"
    using that by (cases ?kp) (simp_all add: truthy_def expanduser_nonempty)
  have both: "truthy ?pw \<and> truthy ?kp \<longrightarrow> truthy (password s) \<and> truthy (key_path s)"
    using x by (simp only: p k) blast
  have one: "truthy (password s) \<or> truthy (key_path s)" by (rule init_Inr(10) [OF assms])
  have key: "truthy (key_path s) \<longrightarrow>
            map_of (connect_kwargs s) ''key_filename'' = Some (kw_of (key_path s))
            \<and> map_of (connect_kwargs s) ''password'' = None"
    by (simp add: connect_kwargs_def)
  have pass: "\<not> truthy (key_path s) \<longrightarrow>
            truthy (password s)
            \<and> map_of (connect_kwargs s) ''password'' = Some (kw_of (password s))
            \<and> map_of (connect_kwargs s) ''key_filename'' = None"
    using one by (auto simp: connect_kwargs_def)
  from p k both one key pass show ?thesis by blast
qed

text \<open>
  C3 as stated fails: resolved from a password and a key path, the object holds both.
\<close>

theorem auth_selection_counterexample:
  "fst (init both_args bare_world)
     = Inr \<lparr>host = Some ''h'', user = Some ''u'', password = Some ''secret'',
             key_path = Some ''/keys/id_rsa'', port = 22, client = None\<rparr>"
  by (simp add: resolver_defs input_defs)

text \<open>
  Two instances. Where the arguments supply a password and a key path, both are in the
  object, and the library gets the key file and no password; with a password only, it gets
  the password.
\<close>

theorem auth_selection_witness:
  "truthy (py_or (password_arg both_args)
             (env_then_file (env_file both_args) bare_world ''SSH_PASSWORD''))
   \<and> truthy (py_or (key_path_arg both_args)
               (env_then_file (env_file both_args) bare_world ''SSH_KEY_PATH''))
   \<and> fst (init both_args bare_world)
     = Inr \<lparr>host = Some ''h'', user = Some ''u'', password = Some ''secret'',
             key_path = Some ''/keys/id_rsa'', port = 22, client = None\<rparr>
   \<and> truthy (password \<lparr>host = Some ''h'', user = Some ''u'', password = Some ''secret'',
             key_path = Some ''/keys/id_rsa'', port = 22, client = None\<rparr>)
   \<and> truthy (key_path \<lparr>host = Some ''h'', user = Some ''u'', password = Some ''secret'',
             key_path = Some ''/keys/id_rsa'', port = 22, client = None\<rparr>)
   \<and> map_of (connect_kwargs \<lparr>host = Some ''h'', user = Some ''u'', password = Some ''secret'',
             key_path = Some ''/keys/id_rsa'', port = 22, client = None\<rparr>) ''key_filename''
       = Some (StrV ''/keys/id_rsa'')
   \<and> map_of (connect_kwargs \<lparr>host = Some ''h'', user = Some ''u'', password = Some ''secret'',
             key_path = Some ''/keys/id_rsa'', port = 22, client = None\<rparr>) ''password'' = None
   \<and> fst (init creds_args bare_world)
     = Inr \<lparr>host = Some ''h'', user = Some ''u'', password = Some ''secret'',
             key_path = None, port = 22, client = None\<rparr>
   \<and> map_of (connect_kwargs \<lparr>host = Some ''h'', user = Some ''u'', password = Some ''secret'',
             key_path = None, port = 22, client = None\<rparr>) ''password'' = Some (StrV ''secret'')"
proof -
  let ?b = "\<lparr>host = Some ''h'', user = Some ''u'', password = Some ''secret'',
             key_path = Some ''/keys/id_rsa'', port = 22, client = None\<rparr>"
  let ?c = "\<lparr>host = Some ''h'', user = Some ''u'', password = Some ''secret'',
             key_path = None, port = 22, client = None\<rparr>"
  have tp: "truthy (py_or (password_arg both_args)
             (env_then_file (env_file both_args) bare_world ''SSH_PASSWORD''))"
    by (simp add: resolver_defs input_defs)
  have tk: "truthy (py_or (key_path_arg both_args)
               (env_then_file (env_file both_args) bare_world ''SSH_KEY_PATH''))"
    by (simp add: resolver_defs input_defs)
  have f: "fst (init both_args bare_world) = Inr ?b"
    by (simp add: resolver_defs input_defs)
  then have i: "init both_args bare_world = (Inr ?b, snd (init both_args bare_world))"
    by (metis prod.collapse)
  have g: "fst (init creds_args bare_world) = Inr ?c"
    by (simp add: resolver_defs input_defs)
  then have j: "init creds_args bare_world = (Inr ?c, snd (init creds_args bare_world))"
    by (metis prod.collapse)
  have kb: "kw_of (key_path ?b) = StrV ''/keys/id_rsa''" by (simp add: kw_of_def)
  have kc: "kw_of (password ?c) = StrV ''secret''" by (simp add: kw_of_def)
  have nc: "\<not> truthy (key_path ?c)" by (simp add: truthy_def)
  from auth_selection [OF i] tp tk
  have 1: "truthy (password ?b) \<and> truthy (key_path ?b)" by blast
  with auth_selection [OF i]
  have 2: "map_of (connect_kwargs ?b) ''key_filename'' = Some (kw_of (key_path ?b))
           \<and> map_of (connect_kwargs ?b) ''password'' = None" by blast
  from auth_selection [OF j] nc
  have 3: "map_of (connect_kwargs ?c) ''password'' = Some (kw_of (password ?c))" by blast
  from 2 have 4: "map_of (connect_kwargs ?b) ''key_filename'' = Some (StrV ''/keys/id_rsa'')
           \<and> map_of (connect_kwargs ?b) ''password'' = None"
    by (simp only: kb)
  from 3 have 5: "map_of (connect_kwargs ?c) ''password'' = Some (StrV ''secret'')"
    by (simp only: kc)
  from tp tk f g 1 4 5 show ?thesis by blast
qed

subsection \<open>C4: what resolution changes\<close>

text \<open>
  C4, as amended. Resolution, whether it succeeds or fails, changes nothing but the
  process environment; no file is written; the environment afterwards is the one before
  with the bindings of the settings file added for the variables that were not set, so a
  variable that was set keeps its value.
\<close>

theorem resolution_effects:
  "snd (init a w) = w\<lparr>environ := settings_values (env_file a) w ++ environ w\<rparr>
   \<and> files (snd (init a w)) = files w
   \<and> (environ w k = Some v \<longrightarrow> environ (snd (init a w)) k = Some v)"
  by (simp add: snd_init load_settings_eq map_add_def)

text \<open>
  C4 as stated fails: with no \<^verbatim>\<open>SSH_HOST\<close> in the environment and \<^verbatim>\<open>SSH_HOST=h\<close> in
  \<^verbatim>\<open>.env\<close>, the environment has \<^verbatim>\<open>SSH_HOST=h\<close> after \<^verbatim>\<open>SSHClient()\<close>.
\<close>

theorem resolution_effects_counterexample:
  "environ dotenv_world ''SSH_HOST'' = None
   \<and> environ (snd (init no_args dotenv_world)) ''SSH_HOST'' = Some ''h''"
  by (simp add: resolver_defs)

text \<open>
  An instance: a variable that was set keeps its value, one that was not takes the
  file's.
\<close>

theorem resolution_effects_witness:
  "environ clash_world ''SSH_HOST'' = Some ''env-host''
   \<and> environ (snd (init no_args clash_world)) ''SSH_HOST'' = Some ''env-host''
   \<and> environ (snd (init no_args clash_world)) ''SSH_USER'' = Some ''u''
   \<and> files (snd (init no_args clash_world)) = files clash_world"
proof -
  have e: "environ clash_world ''SSH_HOST'' = Some ''env-host''"
    by (simp add: clash_world_def bare_world_def)
  have u: "environ (snd (init no_args clash_world)) ''SSH_USER'' = Some ''u''"
    by (simp add: resolver_defs)
  from resolution_effects [of no_args clash_world "''SSH_HOST''" "''env-host''"] e u
  show ?thesis by simp
qed

subsection \<open>C5: the relay loop and the line exit\<close>

text \<open>
  C5. As long as no turn so far has typed \<^verbatim>\<open>exit\<close>, been interrupted or hit the end of
  the input, the loop is still running and has sent exactly the lines typed so far, each as
  typed, newline included, in order. If the next turn types a line that is \<^verbatim>\<open>exit\<close> once
  stripped and lowered, the loop ends there, whatever would follow, and that line is not
  sent.
\<close>

theorem relay_exit:
  assumes "\<forall>t\<in>set pre. keeps_running t"
  shows "fst (relay_loop pre x) = Inr Running
         \<and> sent (snd (relay_loop pre x)) = sent x @ List.map_filter typed_line pre
         \<and> (\<forall>t l post. typed_line t = Some l \<and> is_exit l \<longrightarrow>
              fst (relay_loop (pre @ t # post) x) = Inr Exited
              \<and> sent (snd (relay_loop (pre @ t # post) x)) = sent x @ List.map_filter typed_line pre)"
proof -
  have a: "fst (relay_loop pre x) = Inr Running
         \<and> sent (snd (relay_loop pre x)) = sent x @ List.map_filter typed_line pre"
    using relay_prefix [OF assms, of "[]" x] by auto
  have b: "fst (relay_loop (pre @ t # post) x) = Inr Exited
              \<and> sent (snd (relay_loop (pre @ t # post) x)) = sent x @ List.map_filter typed_line pre"
    if "typed_line t = Some l" "is_exit l" for t l post
    using relay_prefix [OF assms, of "t # post" x] relay_exit_line [OF that] by auto
  from a b show ?thesis by blast
qed

text \<open>
  An instance: \<^verbatim>\<open>Exit\<close>, \<^verbatim>\<open>EXIT\<close> and \<^verbatim>\<open> exit \<close> are exit lines; after \<^verbatim>\<open>ls\<close> and
  \<^verbatim>\<open>pwd\<close> the line \<^verbatim>\<open> Exit \<close> ends the loop with those two lines sent.
\<close>

theorem relay_exit_witness:
  "is_exit ''Exit\<newline>'' \<and> is_exit ''EXIT\<newline>'' \<and> is_exit '' exit \<newline>''
   \<and> fst (relay_loop (typed_ticks @ Tick None (Line '' Exit \<newline>'') # [Tick None (Line ''id\<newline>'')]) empty_io)
       = Inr Exited
   \<and> sent (snd (relay_loop (typed_ticks @ Tick None (Line '' Exit \<newline>'') # [Tick None (Line ''id\<newline>'')]) empty_io))
       = [''ls\<newline>'', ''pwd\<newline>'']
   \<and> fst (relay_loop typed_ticks empty_io) = Inr Running"
proof -
  have k: "\<forall>t\<in>set typed_ticks. keeps_running t"
    by (simp add: relay_defs)
  have x: "is_exit ''Exit\<newline>''" "is_exit ''EXIT\<newline>''" "is_exit '' exit \<newline>''" "is_exit '' Exit \<newline>''"
    by (simp_all add: relay_defs)
  have m: "List.map_filter typed_line typed_ticks = [''ls\<newline>'', ''pwd\<newline>'']"
    by (simp add: typed_ticks_def List.map_filter_simps)
  have t: "typed_line (Tick None (Line '' Exit \<newline>'')) = Some '' Exit \<newline>''" by simp
  from relay_exit [OF k, of empty_io] x m t show ?thesis
    by (simp add: empty_io_def)
qed

subsection \<open>C6: the port\<close>

text \<open>
  C6, as amended. Without a port argument (or with 0): when \<^verbatim>\<open>SSH_PORT\<close> is neither in
  the environment nor in the settings file the port is 22; when it is, the text is read by
  \<^verbatim>\<open>int\<close>, whose failure is the failure of the resolution (never a fall back to 22) and
  whose value, negative ones included, is the port. A port argument other than 0 is the
  port.
\<close>

theorem port_resolution:
  "((port_arg a = None \<or> port_arg a = Some 0) \<longrightarrow>
      (env_then_file (env_file a) w ''SSH_PORT'' = None \<longrightarrow>
         resolve_port (port_arg a) (snd (init a w)) = Inr 22
         \<and> (\<forall>s w'. init a w = (Inr s, w') \<longrightarrow> port s = 22))
    \<and> (\<forall>v. env_then_file (env_file a) w ''SSH_PORT'' = Some v \<longrightarrow>
          (\<forall>e. py_int v = Inl e \<longrightarrow> fst (init a w) = Inl e)
          \<and> (\<forall>n s w'. py_int v = Inr n \<and> init a w = (Inr s, w') \<longrightarrow> port s = n)))
   \<and> (\<forall>p s w'. port_arg a = Some p \<and> p \<noteq> 0 \<and> init a w = (Inr s, w') \<longrightarrow> port s = p)"
proof -
  have r: "resolve_port (port_arg a) (snd (init a w)) =
     (case port_arg a of Some n \<Rightarrow> if n \<noteq> 0 then Inr n else py_int (port_text (env_file a) w)
              | None \<Rightarrow> py_int (port_text (env_file a) w))"
    by (simp only: snd_init resolve_port_eq)
  have p: "resolve_port (port_arg a) (snd (init a w)) = Inr (port s)" if "init a w = (Inr s, w')" for s w'
    using init_Inr(1,6) [OF that] by (simp add: snd_init)
  have f: "fst (init a w) = Inl e" if "resolve_port (port_arg a) (snd (init a w)) = Inl e" for e
  proof -
    from that have "resolve_port (port_arg a) (load_settings (env_file a) w) = Inl e"
      by (simp only: snd_init)
    then show ?thesis by (simp add: init_def Let_def)
  qed
  show ?thesis
    using r p f by (auto simp: port_text_def py_int_22 split: option.splits)
qed

text \<open>
  C6 as stated fails: \<^verbatim>\<open>SSH_PORT=-5\<close> is no unsigned integer, and resolution succeeds
  with port \<open>-5\<close>.
\<close>

theorem port_resolution_counterexample:
  "environ (port_world ''-5'') ''SSH_PORT'' = Some ''-5''
   \<and> int_unsigned ''-5'' = None
   \<and> fst (init creds_args (port_world ''-5''))
       = Inr \<lparr>host = Some ''h'', user = Some ''u'', password = Some ''secret'',
               key_path = None, port = - 5, client = None\<rparr>"
  by (simp add: resolver_defs input_defs port_world_def)

text \<open>
  Instances: no port anywhere gives 22; \<^verbatim>\<open>SSH_PORT=abc\<close> fails with the error of
  \<^verbatim>\<open>int\<close>; a port argument hides the unreadable variable.
\<close>

theorem port_resolution_witness:
  "fst (init creds_args bare_world)
     = Inr \<lparr>host = Some ''h'', user = Some ''u'', password = Some ''secret'',
             key_path = None, port = 22, client = None\<rparr>
   \<and> resolve_port (port_arg creds_args) (snd (init creds_args bare_world)) = Inr 22
   \<and> py_int ''abc'' = Inl (ValueError (''invalid literal for int() with base 10: '' @ py_repr ''abc''))
   \<and> fst (init creds_args (port_world ''abc''))
       = Inl (ValueError (''invalid literal for int() with base 10: '' @ py_repr ''abc''))
   \<and> fst (init (creds_args\<lparr>port_arg := Some 2222\<rparr>) (port_world ''abc''))
       = Inr \<lparr>host = Some ''h'', user = Some ''u'', password = Some ''secret'',
               key_path = None, port = 2222, client = None\<rparr>"
proof -
  have a: "port_arg creds_args = None \<or> port_arg creds_args = Some 0"
    by (simp add: input_defs no_args_def)
  have b: "env_then_file (env_file creds_args) bare_world ''SSH_PORT'' = None"
    by (simp add: resolver_defs input_defs)
  have c: "env_then_file (env_file creds_args) (port_world ''abc'') ''SSH_PORT'' = Some ''abc''"
    by (simp add: resolver_defs input_defs port_world_def)
  have d: "py_int ''abc'' = Inl (ValueError (''invalid literal for int() with base 10: '' @ py_repr ''abc''))"
    by (simp add: resolver_defs)
  have f: "fst (init creds_args bare_world)
     = Inr \<lparr>host = Some ''h'', user = Some ''u'', password = Some ''secret'',
             key_path = None, port = 22, client = None\<rparr>"
    by (simp add: resolver_defs input_defs)
  have g: "fst (init (creds_args\<lparr>port_arg := Some 2222\<rparr>) (port_world ''abc''))
       = Inr \<lparr>host = Some ''h'', user = Some ''u'', password = Some ''secret'',
               key_path = None, port = 2222, client = None\<rparr>"
    by (simp add: resolver_defs input_defs port_world_def)
  from port_resolution [of creds_args bare_world] a b
  have 1: "resolve_port (port_arg creds_args) (snd (init creds_args bare_world)) = Inr 22"
    by blast
  from port_resolution [of creds_args "port_world ''abc''"] a c d
  have 2: "fst (init creds_args (port_world ''abc''))
       = Inl (ValueError (''invalid literal for int() with base 10: '' @ py_repr ''abc''))"
    by blast
  from f 1 d 2 g show ?thesis by blast
qed

subsection \<open>C7: the three validation errors\<close>

text \<open>
  C7. If the host is empty, or the user is empty, or password and key path are both
  empty, resolution fails with a \<^verbatim>\<open>ValueError\<close> (which \<^verbatim>\<open>main\<close> reports as a
  configuration error). When the port resolves, the message is the one for the host if the
  host is missing, else the one for the user if the user is missing, else the one for
  password and key path; the three messages differ from one another and each names its
  variable.
\<close>

theorem validation_errors:
  "let h = py_or (host_arg a) (env_then_file (env_file a) w ''SSH_HOST'');
       u = py_or (user_arg a) (env_then_file (env_file a) w ''SSH_USER'');
       pw = py_or (password_arg a) (env_then_file (env_file a) w ''SSH_PASSWORD'');
       kp = py_or (key_path_arg a) (env_then_file (env_file a) w ''SSH_KEY_PATH'')
   in ((\<not> truthy h \<or> \<not> truthy u \<or> (\<not> truthy pw \<and> \<not> truthy kp)) \<longrightarrow>
         (\<exists>m. fst (init a w) = Inl (ValueError m)))
    \<and> (\<forall>n. resolve_port (port_arg a) (snd (init a w)) = Inr n \<longrightarrow>
         (\<not> truthy h \<longrightarrow>
            fst (init a w) = Inl (ValueError ''SSH_HOST not set in .env or passed as argument''))
       \<and> (truthy h \<and> \<not> truthy u \<longrightarrow>
            fst (init a w) = Inl (ValueError ''SSH_USER not set in .env or passed as argument''))
       \<and> (truthy h \<and> truthy u \<and> \<not> truthy pw \<and> \<not> truthy kp \<longrightarrow>
            fst (init a w)
              = Inl (ValueError ''SSH_PASSWORD or SSH_KEY_PATH required in .env or as argument'')))
    \<and> ''SSH_HOST not set in .env or passed as argument''
         \<noteq> ''SSH_USER not set in .env or passed as argument''
    \<and> ''SSH_HOST not set in .env or passed as argument''
         \<noteq> ''SSH_PASSWORD or SSH_KEY_PATH required in .env or as argument''
    \<and> ''SSH_USER not set in .env or passed as argument''
         \<noteq> ''SSH_PASSWORD or SSH_KEY_PATH required in .env or as argument''"
proof -
  let ?w = "load_settings (env_file a) w"
  have s: "snd (init a w) = ?w" by (rule snd_init)
  show ?thesis
  proof (cases "resolve_port (port_arg a) ?w")
    case (Inl e)
    then obtain m where "e = ValueError m" using resolve_port_error by blast
    with Inl show ?thesis unfolding s by (simp add: init_def Let_def)
  next
    case (Inr n)
    then show ?thesis unfolding s by (simp add: init_def Let_def getenv_load_settings)
  qed
qed

text \<open>
  The three cases, one after the other.
\<close>

theorem validation_errors_witness:
  "fst (init no_args bare_world)
     = Inl (ValueError ''SSH_HOST not set in .env or passed as argument'')
   \<and> fst (init (no_args\<lparr>host_arg := Some ''h''\<rparr>) bare_world)
     = Inl (ValueError ''SSH_USER not set in .env or passed as argument'')
   \<and> fst (init (no_args\<lparr>host_arg := Some ''h'', user_arg := Some ''u''\<rparr>) bare_world)
     = Inl (ValueError ''SSH_PASSWORD or SSH_KEY_PATH required in .env or as argument'')"
proof -
  have p: "resolve_port (port_arg a) (snd (init a bare_world)) = Inr 22"
    if "port_arg a = None" "env_file a = None" for a
    using that by (simp add: snd_init resolve_port_eq port_text_def env_then_file_def
        settings_values_def settings_path_def truthy_def path_exists_def bare_world_def py_int_22)
  have e: "env_then_file None bare_world k = None" for k
    by (simp add: env_then_file_def settings_values_def settings_path_def truthy_def
        path_exists_def bare_world_def)
  from validation_errors [of no_args bare_world] p [of no_args]
  have 1: "fst (init no_args bare_world)
     = Inl (ValueError ''SSH_HOST not set in .env or passed as argument'')"
    by (simp add: Let_def no_args_def e py_or_def truthy_def)
  from validation_errors [of "no_args\<lparr>host_arg := Some ''h''\<rparr>" bare_world]
       p [of "no_args\<lparr>host_arg := Some ''h''\<rparr>"]
  have 2: "fst (init (no_args\<lparr>host_arg := Some ''h''\<rparr>) bare_world)
     = Inl (ValueError ''SSH_USER not set in .env or passed as argument'')"
    by (simp add: Let_def no_args_def e py_or_def truthy_def)
  from validation_errors [of "no_args\<lparr>host_arg := Some ''h'', user_arg := Some ''u''\<rparr>" bare_world]
       p [of "no_args\<lparr>host_arg := Some ''h'', user_arg := Some ''u''\<rparr>"]
  have 3: "fst (init (no_args\<lparr>host_arg := Some ''h'', user_arg := Some ''u''\<rparr>) bare_world)
     = Inl (ValueError ''SSH_PASSWORD or SSH_KEY_PATH required in .env or as argument'')"
    by (simp add: Let_def no_args_def e py_or_def truthy_def)
  from 1 2 3 show ?thesis by blast
qed

subsection \<open>C8: the scenario\<close>

text \<open>
  C8. The settings file \<^verbatim>\<open>.env\<close> of the working directory holds \<^verbatim>\<open>SSH_HOST=h\<close>,
  \<^verbatim>\<open>SSH_USER=u\<close> and \<^verbatim>\<open>SSH_KEY_PATH=~/.ssh/id_rsa\<close>; the process environment, the file
  being the only source, sets none of \<^verbatim>\<open>SSH_HOST\<close>, \<^verbatim>\<open>SSH_USER\<close>, \<^verbatim>\<open>SSH_KEY_PATH\<close>
  and \<^verbatim>\<open>SSH_PORT\<close>, and the user has a home directory. Then \<^verbatim>\<open>SSHClient()\<close> has host
  \<^verbatim>\<open>h\<close>, user \<^verbatim>\<open>u\<close>, port 22 and the key path \<^verbatim>\<open>.ssh/id_rsa\<close> below the home
  directory.
\<close>

theorem dotenv_scenario:
  assumes "files w (path_str (cwd w @ [''.env''])) =
             Some (File [''SSH_HOST'' \<mapsto> ''h'', ''SSH_USER'' \<mapsto> ''u'',
                         ''SSH_KEY_PATH'' \<mapsto> ''~/.ssh/id_rsa''])"
    and "environ w ''SSH_HOST'' = None" and "environ w ''SSH_USER'' = None"
    and "environ w ''SSH_KEY_PATH'' = None" and "environ w ''SSH_PORT'' = None"
    and "home_dir w = Some home"
  shows "fst (init no_args w) =
           Inr \<lparr>host = Some ''h'', user = Some ''u'', password = environ w ''SSH_PASSWORD'',
                 key_path = Some (rev (dropWhile (\<lambda>c. c = CHR ''/'') (rev home)) @ ''/.ssh/id_rsa''),
                 port = 22, client = None\<rparr>"
proof -
  let ?d = "[''SSH_HOST'' \<mapsto> ''h'', ''SSH_USER'' \<mapsto> ''u'', ''SSH_KEY_PATH'' \<mapsto> ''~/.ssh/id_rsa'']"
  let ?w = "load_settings None w"
  have sv: "settings_values None w = ?d"
    using assms(1) by (simp add: settings_values_def settings_path_def truthy_def path_exists_def
        dotenv_values_def)
  have e: "env_then_file None w ''SSH_HOST'' = Some ''h''"
      "env_then_file None w ''SSH_USER'' = Some ''u''"
      "env_then_file None w ''SSH_KEY_PATH'' = Some ''~/.ssh/id_rsa''"
      "env_then_file None w ''SSH_PORT'' = None"
      "env_then_file None w ''SSH_PASSWORD'' = environ w ''SSH_PASSWORD''"
    using assms(2-5) by (simp_all add: env_then_file_def sv split: option.split)
  have h: "home_dir ?w = Some home"
    using assms(6) by (simp add: home_dir_def load_settings_eq sv map_add_def
        split: option.splits)
  have x: "expanduser ?w ''~/.ssh/id_rsa'' = rev (dropWhile (\<lambda>c. c = CHR ''/'') (rev home)) @ ''/.ssh/id_rsa''"
    by (simp add: expanduser_def h)
  have p: "resolve_port None ?w = Inr 22"
    by (simp add: resolve_port_eq port_text_def e py_int_22)
  show ?thesis
    by (simp add: init_def no_args_def Let_def getenv_load_settings e p x py_or_def truthy_def)
qed

text \<open>
  The scenario with the home directory \<^verbatim>\<open>/home/admin\<close>.
\<close>

theorem dotenv_scenario_witness:
  "files dotenv_world (path_str (cwd dotenv_world @ [''.env'']))
     = Some (File [''SSH_HOST'' \<mapsto> ''h'', ''SSH_USER'' \<mapsto> ''u'',
                   ''SSH_KEY_PATH'' \<mapsto> ''~/.ssh/id_rsa''])
   \<and> home_dir dotenv_world = Some ''/home/admin''
   \<and> fst (init no_args dotenv_world)
       = Inr \<lparr>host = Some ''h'', user = Some ''u'', password = None,
               key_path = Some ''/home/admin/.ssh/id_rsa'', port = 22, client = None\<rparr>"
proof -
  have f: "files dotenv_world (path_str (cwd dotenv_world @ [''.env'']))
     = Some (File [''SSH_HOST'' \<mapsto> ''h'', ''SSH_USER'' \<mapsto> ''u'',
                   ''SSH_KEY_PATH'' \<mapsto> ''~/.ssh/id_rsa''])"
    by (simp add: dotenv_world_def bare_world_def path_str_def)
  have e: "environ dotenv_world k = None" for k
    by (simp add: dotenv_world_def bare_world_def)
  have h: "home_dir dotenv_world = Some ''/home/admin''"
    by (simp add: home_dir_def dotenv_world_def bare_world_def)
  from dotenv_scenario [OF f e e e e h] f h show ?thesis
    by (simp add: e)
qed

subsection \<open>C9: close\<close>

text \<open>
  C9. \<open>close\<close> never fails; a second \<open>close\<close> changes nothing; afterwards there is no
  client; and on an object without a client \<open>close\<close> does nothing at all.
\<close>

theorem close_idempotent:
  "close (fst (close s n)) (snd (close s n)) = close s n
   \<and> client (fst (close s n)) = None
   \<and> (client s = None \<longrightarrow> close s n = (s, n))"
  by (simp add: close_def split: option.split)

text \<open>
  On a fresh object nothing happens; on an open one the library is told to close
  once.
\<close>

theorem close_idempotent_witness:
  "client fresh_session = None
   \<and> close fresh_session echo_network = (fresh_session, echo_network)
   \<and> close (fst (close open_session echo_network)) (snd (close open_session echo_network))
       = close open_session echo_network
   \<and> calls (snd (close open_session echo_network)) = [Close]"
  using close_idempotent [of fresh_session echo_network]
        close_idempotent [of open_session echo_network]
  by (simp add: fresh_session_def open_session_def echo_network_def close_def)

subsection \<open>C10: run and interactive\_shell connect by themselves\<close>

text \<open>
  C10. Called on an object without a client (as \<^verbatim>\<open>__init__\<close> and \<open>close\<close> leave it),
  \<open>run\<close> and \<open>interactive_shell\<close> first call \<open>connect\<close>. If the connection is
  established, the command is executed (the shell is invoked) on the active client right
  after, and the result is the one of the command (of the shell). If it is refused, the
  error of \<open>connect\<close> is the result and nothing else is asked of the library.
\<close>

theorem connects_first:
  assumes "client s = None"
  shows "(connect_outcome n (connect_kwargs s) = None \<longrightarrow>
            fst (run s command timeout n)
              = map_sum id (\<lambda>(output, errors). merge_output output errors) (exec_outcome n command timeout)
            \<and> client (fst (snd (run s command timeout n))) = Some True
            \<and> calls (snd (snd (run s command timeout n)))
                = calls n @ [Connect (connect_kwargs s), ExecCommand command timeout]
            \<and> fst (interactive_shell s ticks n x)
                = (case shell_outcome n of
                     Some e \<Rightarrow> (Inl e, x)
                   | None \<Rightarrow> relay_loop ticks (banner (s\<lparr>client := Some True\<rparr>) x))
            \<and> client (fst (snd (interactive_shell s ticks n x))) = Some True
            \<and> calls (snd (snd (interactive_shell s ticks n x)))
                = calls n @ [Connect (connect_kwargs s), InvokeShell])
       \<and> (\<forall>e. connect_outcome n (connect_kwargs s) = Some e \<longrightarrow>
            fst (run s command timeout n) = Inl e
            \<and> calls (snd (snd (run s command timeout n))) = calls n @ [Connect (connect_kwargs s)]
            \<and> fst (fst (interactive_shell s ticks n x)) = Inl e
            \<and> calls (snd (snd (interactive_shell s ticks n x))) = calls n @ [Connect (connect_kwargs s)])"
proof -
  let ?kw = "connect_kwargs s"
  have ok: "connect_outcome n ?kw = None \<Longrightarrow>
      ensure_client s n = (Inr (), s\<lparr>client := Some True\<rparr>, n\<lparr>calls := calls n @ [Connect ?kw]\<rparr>)"
    using assms by (simp add: ensure_client_def connect_def)
  have bad: "connect_outcome n ?kw = Some e \<Longrightarrow>
      ensure_client s n = (Inl e, s\<lparr>client := Some False\<rparr>, n\<lparr>calls := calls n @ [Connect ?kw]\<rparr>)" for e
    using assms by (simp add: ensure_client_def connect_def)
  have r1: "connect_outcome n ?kw = None \<Longrightarrow>
            fst (run s command timeout n)
              = map_sum id (\<lambda>(output, errors). merge_output output errors) (exec_outcome n command timeout)
            \<and> client (fst (snd (run s command timeout n))) = Some True
            \<and> calls (snd (snd (run s command timeout n)))
                = calls n @ [Connect ?kw, ExecCommand command timeout]"
    by (simp add: run_def ok Let_def split: sum.split prod.split)
  have i1: "connect_outcome n ?kw = None \<Longrightarrow>
            fst (interactive_shell s ticks n x)
                = (case shell_outcome n of
                     Some e \<Rightarrow> (Inl e, x)
                   | None \<Rightarrow> relay_loop ticks (banner (s\<lparr>client := Some True\<rparr>) x))
            \<and> client (fst (snd (interactive_shell s ticks n x))) = Some True
            \<and> calls (snd (snd (interactive_shell s ticks n x)))
                = calls n @ [Connect ?kw, InvokeShell]"
    by (simp add: interactive_shell_def ok Let_def split: option.split)
  have r2: "connect_outcome n ?kw = Some e \<Longrightarrow>
            fst (run s command timeout n) = Inl e
            \<and> calls (snd (snd (run s command timeout n))) = calls n @ [Connect ?kw]" for e
    by (simp add: run_def bad)
  have i2: "connect_outcome n ?kw = Some e \<Longrightarrow>
            fst (fst (interactive_shell s ticks n x)) = Inl e
            \<and> calls (snd (snd (interactive_shell s ticks n x))) = calls n @ [Connect ?kw]" for e
    by (simp add: interactive_shell_def bad)
  from r1 i1 r2 i2 show ?thesis by blast
qed

text \<open>
  Both cases, on a network that accepts and one that refuses.
\<close>

theorem connects_first_witness:
  "client fresh_session = None
   \<and> fst (run fresh_session ''ls'' 30 echo_network) = Inr ''hello''
   \<and> calls (snd (snd (run fresh_session ''ls'' 30 echo_network)))
       = [Connect [(''hostname'', StrV ''h''), (''port'', IntV 22), (''username'', StrV ''u''),
                   (''password'', StrV ''p'')],
          ExecCommand ''ls'' 30]
   \<and> calls (snd (snd (interactive_shell fresh_session typed_ticks echo_network empty_io)))
       = [Connect [(''hostname'', StrV ''h''), (''port'', IntV 22), (''username'', StrV ''u''),
                   (''password'', StrV ''p'')],
          InvokeShell]
   \<and> fst (run fresh_session ''ls'' 30 refusing_network) = Inl AuthenticationException
   \<and> calls (snd (snd (run fresh_session ''ls'' 30 refusing_network)))
       = [Connect [(''hostname'', StrV ''h''), (''port'', IntV 22), (''username'', StrV ''u''),
                   (''password'', StrV ''p'')]]"
proof -
  have c: "client fresh_session = None" by (simp add: fresh_session_def)
  have k: "connect_kwargs fresh_session
      = [(''hostname'', StrV ''h''), (''port'', IntV 22), (''username'', StrV ''u''),
         (''password'', StrV ''p'')]"
    by (simp add: connect_kwargs_def kw_of_def truthy_def fresh_session_def open_session_def)
  have ok: "connect_outcome echo_network (connect_kwargs fresh_session) = None"
    by (simp add: echo_network_def)
  have bad: "connect_outcome refusing_network (connect_kwargs fresh_session) = Some AuthenticationException"
    by (simp add: refusing_network_def)
  have m: "map_sum id (\<lambda>(output, errors). merge_output output errors)
             (exec_outcome echo_network ''ls'' 30) = Inr ''hello''"
    by (simp add: echo_network_def merge_output_def strip_def lstrip_def rstrip_def isspace_def)
  have n: "calls echo_network = []" "calls refusing_network = []"
    by (simp_all add: echo_network_def refusing_network_def)
  from connects_first [OF c, of echo_network "''ls''" 30 typed_ticks empty_io] ok m k n
  have 1: "fst (run fresh_session ''ls'' 30 echo_network) = Inr ''hello''
   \<and> calls (snd (snd (run fresh_session ''ls'' 30 echo_network)))
       = [Connect [(''hostname'', StrV ''h''), (''port'', IntV 22), (''username'', StrV ''u''),
                   (''password'', StrV ''p'')],
          ExecCommand ''ls'' 30]
   \<and> calls (snd (snd (interactive_shell fresh_session typed_ticks echo_network empty_io)))
       = [Connect [(''hostname'', StrV ''h''), (''port'', IntV 22), (''username'', StrV ''u''),
                   (''password'', StrV ''p'')],
          InvokeShell]"
    by simp
  from connects_first [OF c, of refusing_network "''ls''" 30 typed_ticks empty_io] bad k n
  have 2: "fst (run fresh_session ''ls'' 30 refusing_network) = Inl AuthenticationException
   \<and> calls (snd (snd (run fresh_session ''ls'' 30 refusing_network)))
       = [Connect [(''hostname'', StrV ''h''), (''port'', IntV 22), (''username'', StrV ''u''),
                   (''password'', StrV ''p'')]]"
    by simp
  from c 1 2 show ?thesis by blast
qed

end
